theory Spec2Isabelle
  imports
    Complex_Main
    "HOL-Library.Multiset"
    "HOL-Library.List_Lexorder"
    "HOL-Library.Char_ord"
    "HOL-Library.Product_Lexorder"
begin

section \<open>Data model of app.py\<close>

text \<open>
  The two tables of \<^verbatim>\<open>init_db\<close>. A row of \<^verbatim>\<open>transactions\<close> has the columns
  id, date, type, category, project, description, amount, created_at; a row of
  \<^verbatim>\<open>projects\<close> has id, name, client, budget, status, created_at. Columns declared
  \<^verbatim>\<open>NOT NULL\<close> carry a value, the others an option (\<open>None\<close> is SQL NULL, which
  pandas reads as NaN/None).

  A date is the triple (year, month, day); the lexicographic order on triples is the
  order of the ISO text \<^verbatim>\<open>YYYY-MM-DD\<close> that \<^verbatim>\<open>str(trans_date)\<close> stores for four-digit
  years. An amount is the real number that the stored SQL \<^verbatim>\<open>REAL\<close> (a double)
  denotes; the arithmetic that the program does on amounts is floating-point arithmetic
  and is modelled in the section on arithmetic below. A timestamp is a natural number.
\<close>

type_synonym date = "nat \<times> nat \<times> nat"

type_synonym month = "nat \<times> nat"

record transaction =
  t_id :: nat
  t_date :: date
  t_type :: string
  t_category :: string
  t_project :: "string option"
  t_description :: "string option"
  t_amount :: real
  t_created_at :: nat

record project =
  p_id :: nat
  p_name :: string
  p_client :: "string option"
  p_budget :: "real option"
  p_status :: "string option"
  p_created_at :: nat

text \<open>The database file \<^verbatim>\<open>finance.db\<close>: both tables, rows in insertion order.\<close>

record ledger =
  transactions :: "transaction list"
  projects :: "project list"

text \<open>
  The string literals of the source are Korean; a \<open>string\<close> here is a list of bytes, so
  each literal is written as its UTF-8 encoding. The code only compares them for
  equality and sorts them, and UTF-8 preserves both equality and code point order.
  \<open>label_income\<close> is the literal compared with \<^verbatim>\<open>df['type']\<close> for income (U+C218 U+C785),
  \<open>label_expense\<close> the one for expense (U+C9C0 U+CD9C), \<open>label_net_profit\<close> the name of
  the computed net column (U+C21C U+C774 U+C775).
\<close>

definition label_income :: string where
  "label_income = [CHR 0xEC, CHR 0x88, CHR 0x98, CHR 0xEC, CHR 0x9E, CHR 0x85]"

definition label_expense :: string where
  "label_expense = [CHR 0xEC, CHR 0xA7, CHR 0x80, CHR 0xEC, CHR 0xB6, CHR 0x9C]"

definition label_net_profit :: string where
  "label_net_profit =
     [CHR 0xEC, CHR 0x88, CHR 0x9C, CHR 0xEC, CHR 0x9D, CHR 0xB4, CHR 0xEC, CHR 0x9D, CHR 0xB5]"

section \<open>The ledger store\<close>

text \<open>
  \<^verbatim>\<open>INTEGER PRIMARY KEY AUTOINCREMENT\<close>: a new row gets an id one above the largest id
  used so far (no row is ever deleted by the program).
\<close>

definition next_id :: "nat list \<Rightarrow> nat" where
  "next_id ids = Suc (fold max ids 0)"

text \<open>
  \<^verbatim>\<open>add_transaction\<close>: one INSERT of the six given columns; id and created_at are
  filled in by the store (\<open>now\<close> is the store's clock at the insertion).
\<close>

definition add_transaction ::
  "ledger \<Rightarrow> nat \<Rightarrow> date \<Rightarrow> string \<Rightarrow> string \<Rightarrow> string option \<Rightarrow> string option \<Rightarrow> real \<Rightarrow> ledger" where
  "add_transaction L now trans_date trans_type category proj description amount =
     L\<lparr>transactions := transactions L @
        [\<lparr>t_id = next_id (map t_id (transactions L)), t_date = trans_date, t_type = trans_type,
          t_category = category, t_project = proj, t_description = description,
          t_amount = amount, t_created_at = now\<rparr>]\<rparr>"

text \<open>
  \<^verbatim>\<open>add_project\<close>: the INSERT raises \<^verbatim>\<open>sqlite3.IntegrityError\<close> when the name breaks
  the \<^verbatim>\<open>UNIQUE\<close> constraint of the column (a byte-wise comparison against every row
  of the table, whatever its status); the function then returns False and nothing is
  committed. Otherwise the row is committed with status \<^verbatim>\<open>'active'\<close> and the function
  returns True.
\<close>

definition add_project ::
  "ledger \<Rightarrow> nat \<Rightarrow> string \<Rightarrow> string option \<Rightarrow> real option \<Rightarrow> bool \<times> ledger" where
  "add_project L now name client budget =
     (if name \<in> set (map p_name (projects L)) then (False, L)
      else (True, L\<lparr>projects := projects L @
        [\<lparr>p_id = next_id (map p_id (projects L)), p_name = name, p_client = client,
          p_budget = budget, p_status = Some ''active'', p_created_at = now\<rparr>]\<rparr>))"

text \<open>
  \<^verbatim>\<open>get_transactions\<close> builds the text of a query and runs it. The query is
  \<^verbatim>\<open>SELECT * FROM transactions\<close>, with \<^verbatim>\<open>WHERE date BETWEEN start AND end\<close> added
  when \<^verbatim>\<open>start_date and end_date\<close> is truthy (a date object is always truthy, None is
  not), and always \<^verbatim>\<open>ORDER BY date DESC\<close>.
\<close>

datatype query = Select_transactions "(date \<times> date) option"

definition build_query :: "date option \<Rightarrow> date option \<Rightarrow> query" where
  "build_query start_date end_date =
     (case start_date of
        None \<Rightarrow> Select_transactions None
      | Some s \<Rightarrow>
          (case end_date of
             None \<Rightarrow> Select_transactions None
           | Some e \<Rightarrow> Select_transactions (Some (s, e))))"

fun where_clause :: "query \<Rightarrow> transaction \<Rightarrow> bool" where
  "where_clause (Select_transactions None) t = True"
| "where_clause (Select_transactions (Some (s, e))) t = (s \<le> t_date t \<and> t_date t \<le> e)"

text \<open>
  \<^verbatim>\<open>ORDER BY date DESC\<close> fixes the order of the rows up to the order among rows of
  equal date, which SQL leaves open: the result is any arrangement of the selected rows
  with dates descending. So running a query is a relation between the table and a
  result.
\<close>

definition order_by_date_desc :: "transaction list \<Rightarrow> transaction list \<Rightarrow> bool" where
  "order_by_date_desc selected df \<longleftrightarrow>
     mset df = mset selected \<and> sorted_wrt (\<lambda>a b. t_date a \<ge> t_date b) df"

definition read_sql_query :: "query \<Rightarrow> ledger \<Rightarrow> transaction list \<Rightarrow> bool" where
  "read_sql_query q L df \<longleftrightarrow> order_by_date_desc (filter (where_clause q) (transactions L)) df"

definition get_transactions :: "ledger \<Rightarrow> date option \<Rightarrow> date option \<Rightarrow> transaction list \<Rightarrow> bool" where
  "get_transactions L start_date end_date df \<longleftrightarrow> read_sql_query (build_query start_date end_date) L df"

text \<open>\<^verbatim>\<open>get_projects\<close>: \<^verbatim>\<open>SELECT * FROM projects WHERE status='active'\<close>.\<close>

definition get_projects :: "ledger \<Rightarrow> project list" where
  "get_projects L = filter (\<lambda>p. p_status p = Some ''active'') (projects L)"

section \<open>The handlers of main\<close>

text \<open>
  What a handler shows to the user: the \<^verbatim>\<open>st.success\<close> and \<^verbatim>\<open>st.error\<close> calls of
  \<^verbatim>\<open>main\<close>, one constructor for each message text. A handler returns the message and
  the ledger it leaves behind.
\<close>

datatype sql_error = IntegrityError

datatype message =
    success_transaction_added
  | error_enter_amount
  | success_project_added
  | error_project_exists
  | error_enter_project_name
  | success_imported nat
  | error_exception sql_error

text \<open>
  The save button of the transaction form (lines 251 to 258): \<^verbatim>\<open>if amount > 0\<close> the
  transaction is stored through \<^verbatim>\<open>add_transaction\<close>, with the date as text, the
  project None when the placeholder entry is selected and the description as typed;
  otherwise an error is shown and nothing is called.
\<close>

definition main_save_transaction ::
  "ledger \<Rightarrow> nat \<Rightarrow> date \<Rightarrow> string \<Rightarrow> string \<Rightarrow> string option \<Rightarrow> string \<Rightarrow> real \<Rightarrow> message \<times> ledger" where
  "main_save_transaction L now trans_date trans_type category proj description amount =
     (if amount > 0
      then (success_transaction_added,
            add_transaction L now trans_date trans_type category proj (Some description) amount)
      else (error_enter_amount, L))"

text \<open>The save button of the project form (lines 318 to 326).\<close>

definition main_save_project ::
  "ledger \<Rightarrow> nat \<Rightarrow> string \<Rightarrow> string \<Rightarrow> real \<Rightarrow> message \<times> ledger" where
  "main_save_project L now proj_name proj_client proj_budget =
     (if proj_name \<noteq> []
      then (case add_project L now proj_name (Some proj_client) (Some proj_budget) of
              (True, L') \<Rightarrow> (success_project_added, L')
            | (False, L') \<Rightarrow> (error_project_exists, L'))
      else (error_enter_project_name, L))"

text \<open>
  The export tab (lines 443 to 458). When the frame of transactions is not empty, a
  workbook is written: the sheet of the transactions, and, when \<^verbatim>\<open>get_projects\<close>
  returns a non-empty frame, the sheet of the projects. When the frame is empty no
  workbook is built. \<open>sheet_transactions\<close> and \<open>sheet_projects\<close> are the two sheet
  names of the source (U+AC70 U+B798 U+B0B4 U+C5ED and U+D504 U+B85C U+C81D U+D2B8).
\<close>

definition sheet_transactions :: string where
  "sheet_transactions =
     [CHR 0xEA, CHR 0xB1, CHR 0xB0, CHR 0xEB, CHR 0x9E, CHR 0x98,
      CHR 0xEB, CHR 0x82, CHR 0xB4, CHR 0xEC, CHR 0x97, CHR 0xAD]"

definition sheet_projects :: string where
  "sheet_projects =
     [CHR 0xED, CHR 0x94, CHR 0x84, CHR 0xEB, CHR 0xA1, CHR 0x9C,
      CHR 0xEC, CHR 0xA0, CHR 0x9D, CHR 0xED, CHR 0x8A, CHR 0xB8]"

datatype sheet_rows = transaction_rows "transaction list" | project_rows "project list"

type_synonym workbook = "(string \<times> sheet_rows) list"

definition main_export :: "ledger \<Rightarrow> transaction list \<Rightarrow> workbook option" where
  "main_export L df =
     (if df \<noteq> []
      then
        let projs = get_projects L
        in Some ((sheet_transactions, transaction_rows df) #
                 (if projs \<noteq> [] then [(sheet_projects, project_rows projs)] else []))
      else None)"

section \<open>The import tab\<close>

text \<open>
  The import tab (lines 425 to 438) reads a spreadsheet into a frame and, on the button,
  appends the frame to the table \<^verbatim>\<open>transactions\<close> with
  \<^verbatim>\<open>to_sql(..., if_exists='append', index=False)\<close>; any exception is caught and shown.

  The page announces the format date, type, category, project, description, amount. A
  frame is a list of column names drawn from these six and a list of rows; an empty cell
  is \<open>None\<close>, and a row has no cell under a column the frame does not have. A date
  cell is the calendar date it denotes: the text that the store keeps for it (a date
  cell of a spreadsheet is stored with a time of day) is not part of the model.
\<close>

datatype import_column =
  col_date | col_type | col_category | col_project | col_description | col_amount

record import_row =
  r_date :: "date option"
  r_type :: "string option"
  r_category :: "string option"
  r_project :: "string option"
  r_description :: "string option"
  r_amount :: "real option"

record import_frame =
  columns :: "import_column list"
  rows :: "import_row list"

definition cell :: "import_column list \<Rightarrow> import_column \<Rightarrow> 'a option \<Rightarrow> 'a option" where
  "cell cols c v = (if c \<in> set cols then v else None)"

text \<open>
  One INSERT of a row of the frame: the statement names the frame's columns only, every
  other column of the table takes its default (NULL, or the next id and the clock). The
  columns date, type, category and amount are declared \<^verbatim>\<open>NOT NULL\<close> in \<^verbatim>\<open>init_db\<close>:
  a NULL there raises \<^verbatim>\<open>sqlite3.IntegrityError\<close>. No other check is made on a row.
\<close>

definition insert_row ::
  "import_column list \<Rightarrow> nat \<Rightarrow> import_row \<Rightarrow> transaction list \<Rightarrow> sql_error + transaction list" where
  "insert_row cols now r tbl =
     (case cell cols col_date (r_date r) of
        None \<Rightarrow> Inl IntegrityError
      | Some d \<Rightarrow>
     (case cell cols col_type (r_type r) of
        None \<Rightarrow> Inl IntegrityError
      | Some ty \<Rightarrow>
     (case cell cols col_category (r_category r) of
        None \<Rightarrow> Inl IntegrityError
      | Some c \<Rightarrow>
     (case cell cols col_amount (r_amount r) of
        None \<Rightarrow> Inl IntegrityError
      | Some a \<Rightarrow>
          Inr (tbl @
            [\<lparr>t_id = next_id (map t_id tbl), t_date = d, t_type = ty, t_category = c,
              t_project = cell cols col_project (r_project r),
              t_description = cell cols col_description (r_description r),
              t_amount = a, t_created_at = now\<rparr>])))))"

text \<open>The rows are inserted one after the other; the first failure stops the run.\<close>

fun executemany ::
  "import_column list \<Rightarrow> nat \<Rightarrow> import_row list \<Rightarrow> transaction list \<Rightarrow> sql_error + transaction list" where
  "executemany cols now [] tbl = Inr tbl"
| "executemany cols now (r # rs) tbl =
     (case insert_row cols now r tbl of
        Inl e \<Rightarrow> Inl e
      | Inr tbl' \<Rightarrow> executemany cols now rs tbl')"

text \<open>
  \<^verbatim>\<open>to_sql\<close> with \<^verbatim>\<open>if_exists='append'\<close> on the existing table: a frame without rows
  inserts nothing and returns; otherwise all rows are inserted in one database
  transaction, committed when every INSERT has succeeded and rolled back, the exception
  raised again, when one has failed.
\<close>

definition to_sql :: "import_frame \<Rightarrow> nat \<Rightarrow> ledger \<Rightarrow> sql_error + ledger" where
  "to_sql import_df now L =
     (if rows import_df = [] then Inr L
      else
        (case executemany (columns import_df) now (rows import_df) (transactions L) of
           Inl e \<Rightarrow> Inl e
         | Inr tbl \<Rightarrow> Inr (L\<lparr>transactions := tbl\<rparr>)))"

definition main_import :: "import_frame \<Rightarrow> nat \<Rightarrow> ledger \<Rightarrow> message \<times> ledger" where
  "main_import import_df now L =
     (case to_sql import_df now L of
        Inr L' \<Rightarrow> (success_imported (length (rows import_df)), L')
      | Inl e \<Rightarrow> (error_exception e, L))"

text \<open>
  The specification's notions. A batch misses a required column when one of the four
  columns that the data model calls required is not among its columns; a batch is
  well-formed when it misses none. The required cells of a batch are present when every
  row has a value in each of the four.
\<close>

definition missing_required :: "import_column list \<Rightarrow> bool" where
  "missing_required cols \<longleftrightarrow>
     \<not> list_all (\<lambda>c. c \<in> set cols) [col_date, col_type, col_category, col_amount]"



section \<open>Arithmetic on amounts\<close>

text \<open>
  The program computes on amounts with the doubles of numpy and pandas: every result is
  rounded to a double, and a sum of a column is whatever the library's summation routine
  returns for the values in the order it adds them. An \<open>arith\<close> collects this behaviour:
  \<open>rnd\<close> is the rounding applied to the exact result of one subtraction, multiplication
  or division; \<open>series_sum\<close> is \<^verbatim>\<open>Series.sum()\<close> on the values of a column that
  has values, given in the order of the frame; \<open>groupby_sum\<close> is the sum that
  \<^verbatim>\<open>groupby(...).sum()\<close> takes of the values of one group. The functions of the program take the arithmetic as a
  parameter, and a property stated for every \<open>arith\<close> holds for the machine's. A value
  is a real number: results that overflow the doubles are outside the model.
\<close>

record arith =
  rnd :: "real \<Rightarrow> real"
  series_sum :: "real list \<Rightarrow> real"
  groupby_sum :: "real list \<Rightarrow> real"

definition fl_sub :: "arith \<Rightarrow> real \<Rightarrow> real \<Rightarrow> real" where
  "fl_sub A a b = rnd A (a - b)"

definition fl_mul :: "arith \<Rightarrow> real \<Rightarrow> real \<Rightarrow> real" where
  "fl_mul A a b = rnd A (a * b)"

definition fl_div :: "arith \<Rightarrow> real \<Rightarrow> real \<Rightarrow> real" where
  "fl_div A a b = rnd A (a / b)"

text \<open>
  The arithmetic of the specification's decimal quantities: nothing is rounded and a
  sum is the sum.
\<close>

definition exact :: arith where
  "exact = \<lparr>rnd = (\<lambda>x. x), series_sum = sum_list, groupby_sum = sum_list\<rparr>"

text \<open>
  The doubles (IEEE 754 binary64, round to nearest, ties to even). \<open>normalise n x e\<close>
  finds the binary exponent of a positive \<open>x\<close> in at most \<open>n\<close> halvings or doublings;
  the exponents of the doubles lie well within 1100 steps. \<open>round64\<close> rounds to 53
  significant bits, or to a multiple of \<open>2 ^ - 1074\<close> below the normal range.
\<close>

fun normalise :: "nat \<Rightarrow> real \<Rightarrow> int \<Rightarrow> int" where
  "normalise 0 x e = e"
| "normalise (Suc n) x e =
     (if 2 \<le> x then normalise n (x / 2) (e + 1)
      else if x < 1 then normalise n (x * 2) (e - 1)
      else e)"

definition pow2 :: "int \<Rightarrow> real" where
  "pow2 k = (if 0 \<le> k then 2 ^ nat k else 1 / 2 ^ nat (- k))"

definition round_half_even :: "real \<Rightarrow> int" where
  "round_half_even x =
     (let n = \<lfloor>x\<rfloor>; r = x - of_int n
      in if r < 1 / 2 then n else if 1 / 2 < r then n + 1 else if even n then n else n + 1)"

definition round64 :: "real \<Rightarrow> real" where
  "round64 x =
     (if x = 0 then 0
      else
        let e = max (normalise 1100 \<bar>x\<bar> 0) (- 1022);
            q = pow2 (e - 52)
        in sgn x * of_int (round_half_even (\<bar>x\<bar> / q)) * q)"

text \<open>
  The machine's arithmetic. Each operation rounds with \<open>round64\<close>.

  \<^verbatim>\<open>Series.sum()\<close> is numpy's sum of a contiguous array of doubles, a pairwise
  summation added to the initial value 0: fewer than eight values are added from first
  to last starting from 0; up to 128 values are added in eight interleaved accumulators
  that start with the first eight values, the accumulators are combined as a balanced
  tree, and the values left over are added one by one; a longer array is split near the
  middle at a multiple of eight and the sums of the halves are added.

  The sum of a group in \<^verbatim>\<open>groupby(...).sum()\<close> is pandas' compensated (Kahan) summation
  of the values of the group from first to last.
\<close>

definition fadd :: "real \<Rightarrow> real \<Rightarrow> real" where
  "fadd a b = round64 (a + b)"

fun add_blocks :: "nat \<Rightarrow> real list \<Rightarrow> real list \<Rightarrow> real list \<times> real list" where
  "add_blocks 0 r xs = (r, xs)"
| "add_blocks (Suc n) r xs = add_blocks n (map2 fadd r (take 8 xs)) (drop 8 xs)"

definition block_sum :: "real list \<Rightarrow> real" where
  "block_sum xs =
     (if length xs < 8 then foldl fadd 0 xs
      else
        (case add_blocks (length xs div 8 - 1) (take 8 xs) (drop 8 xs) of
           (r, rest) \<Rightarrow>
             foldl fadd
               (fadd (fadd (fadd (r ! 0) (r ! 1)) (fadd (r ! 2) (r ! 3)))
                     (fadd (fadd (r ! 4) (r ! 5)) (fadd (r ! 6) (r ! 7))))
               rest))"

fun pairwise_sum :: "nat \<Rightarrow> real list \<Rightarrow> real" where
  "pairwise_sum 0 xs = block_sum xs"
| "pairwise_sum (Suc d) xs =
     (if length xs \<le> 128 then block_sum xs
      else
        let n2 = length xs div 2 - (length xs div 2) mod 8
        in fadd (pairwise_sum d (take n2 xs)) (pairwise_sum d (drop n2 xs)))"

definition numpy_sum :: "real list \<Rightarrow> real" where
  "numpy_sum xs = fadd 0 (pairwise_sum (length xs) xs)"

definition kahan_step :: "real \<times> real \<Rightarrow> real \<Rightarrow> real \<times> real" where
  "kahan_step sc x =
     (let y = round64 (x - snd sc);
          t = round64 (fst sc + y)
      in (t, round64 (round64 (t - fst sc) - y)))"

definition kahan_sum :: "real list \<Rightarrow> real" where
  "kahan_sum xs = fst (foldl kahan_step (0, 0) xs)"

definition binary64 :: arith where
  "binary64 = \<lparr>rnd = round64, series_sum = numpy_sum, groupby_sum = kahan_sum\<rparr>"

section \<open>calculate_metrics\<close>

text \<open>
  \<^verbatim>\<open>df[df['type'] == label]['amount']\<close>: the amounts of the rows whose type is the
  label, in the order of the frame; \<^verbatim>\<open>.sum()\<close> is taken of this column.
\<close>

definition amounts :: "string \<Rightarrow> transaction list \<Rightarrow> real list" where
  "amounts label df = map t_amount (filter (\<lambda>t. t_type t = label) df)"

text \<open>
  \<^verbatim>\<open>Series.sum()\<close>: 0 for a column without values, the library's sum of the values
  otherwise.
\<close>

definition column_sum :: "arith \<Rightarrow> real list \<Rightarrow> real" where
  "column_sum A xs = (if xs = [] then 0 else series_sum A xs)"

definition calculate_metrics :: "arith \<Rightarrow> transaction list \<Rightarrow> real \<times> real \<times> real \<times> real" where
  "calculate_metrics A df =
     (if df = [] then (0, 0, 0, 0)
      else
        let income = column_sum A (amounts label_income df);
            expense = column_sum A (amounts label_expense df);
            profit = fl_sub A income expense;
            profit_margin = (if income > 0 then fl_mul A (fl_div A profit income) 100 else 0)
        in (income, expense, profit, profit_margin))"

text \<open>
  The specification's wording of the totals, read in exact arithmetic: the sum, over all
  records, of the amount of those records whose type is the given one.
\<close>

definition total_of :: "string \<Rightarrow> transaction list \<Rightarrow> real" where
  "total_of label df = (\<Sum>t\<leftarrow>df. if t_type t = label then t_amount t else 0)"

section \<open>project_profitability\<close>

text \<open>
  The aggregation function given to \<^verbatim>\<open>agg\<close>: on the amounts of one group, the sum
  of those whose row has the income type minus the sum of those whose row has the
  expense type.
\<close>

definition group_net :: "arith \<Rightarrow> transaction list \<Rightarrow> real" where
  "group_net A g =
     fl_sub A (column_sum A (amounts label_income g)) (column_sum A (amounts label_expense g))"

text \<open>
  \<^verbatim>\<open>groupby('project')\<close>: one group for each distinct value of the column, the groups in
  ascending order of the value, each group the rows with that value in the order of the
  frame.
\<close>

definition groupby_project :: "transaction list \<Rightarrow> (string \<times> transaction list) list" where
  "groupby_project d =
     map (\<lambda>k. (k, filter (\<lambda>t. t_project t = Some k) d))
       (sort (remdups (List.map_filter t_project d)))"

text \<open>
  \<^verbatim>\<open>df[df['project'].notna()].groupby('project').agg(...).reset_index()\<close>: the frame
  with one row (project, net) for each group of the rows whose project is not missing.
\<close>

definition project_data :: "arith \<Rightarrow> transaction list \<Rightarrow> (string \<times> real) list" where
  "project_data A df =
     map (\<lambda>(k, g). (k, group_net A g)) (groupby_project (filter (\<lambda>t. t_project t \<noteq> None) df))"

text \<open>
  \<^verbatim>\<open>sort_values(column, ascending=False)\<close> with one sort key and the default
  \<^verbatim>\<open>kind='quicksort'\<close>, which the library documents as not stable: the result is an
  arrangement of the rows with the key descending, and nothing is promised about rows of
  equal key. So the sort is a relation between the frame and a result.
\<close>

definition sort_values_desc :: "(string \<times> real) list \<Rightarrow> (string \<times> real) list \<Rightarrow> bool" where
  "sort_values_desc frame out \<longleftrightarrow>
     mset out = mset frame \<and> sorted_wrt (\<lambda>a b. snd a \<ge> snd b) out"

definition project_profitability :: "arith \<Rightarrow> transaction list \<Rightarrow> (string \<times> real) list \<Rightarrow> bool" where
  "project_profitability A df out \<longleftrightarrow>
     (if df = [] then out = [] else sort_values_desc (project_data A df) out)"

text \<open>
  The specification's wording: the net contribution of a project is the sum of the
  income amounts minus the sum of the expense amounts among the transactions of that
  project (here with the sums and the difference of the given arithmetic); the output is
  ordered by net contribution descending, ties by project name ascending.
\<close>

definition net_contribution :: "arith \<Rightarrow> string \<Rightarrow> transaction list \<Rightarrow> real" where
  "net_contribution A p df =
     rnd A (column_sum A (amounts label_income (filter (\<lambda>t. t_project t = Some p) df)) -
            column_sum A (amounts label_expense (filter (\<lambda>t. t_project t = Some p) df)))"

definition net_desc_name_asc :: "(string \<times> real) list \<Rightarrow> bool" where
  "net_desc_name_asc out \<longleftrightarrow>
     sorted_wrt (\<lambda>a b. snd a > snd b \<or> (snd a = snd b \<and> fst a \<le> fst b)) out"

section \<open>The monthly report\<close>

text \<open>
  The report page (lines 399 to 409). \<^verbatim>\<open>dt.to_period('M')\<close> keeps the year and the
  month of a date; as text \<^verbatim>\<open>YYYY-MM\<close> it sorts as the pair (year, month) does.
\<close>

definition month_of :: "date \<Rightarrow> month" where
  "month_of d = (fst d, fst (snd d))"

text \<open>
  \<^verbatim>\<open>df.groupby(['month', 'type'])['amount'].sum().reset_index()\<close>: one row for each
  distinct pair (month, type) of the frame, in ascending order of the pair, with the
  library's sum of the amounts of the rows of that pair, taken in the order of the frame.
\<close>

definition monthly_report :: "arith \<Rightarrow> transaction list \<Rightarrow> ((month \<times> string) \<times> real) list" where
  "monthly_report A df =
     map (\<lambda>k. (k, groupby_sum A
                   (map t_amount (filter (\<lambda>t. (month_of (t_date t), t_type t) = k) df))))
       (sort (remdups (map (\<lambda>t. (month_of (t_date t), t_type t)) df)))"

text \<open>
  \<^verbatim>\<open>pivot(index='month', columns='type', values='amount')\<close>: one row for each month
  of the report and one column for each type of the report, both ascending; the cell is
  the amount of the report's row for that month and type, and missing (NaN, here
  \<open>None\<close>) when the report has no such row. \<^verbatim>\<open>fillna(0)\<close> replaces the missing
  cells. A row of the pivot is the list of its cells, each under its column label.
\<close>

definition pivot ::
  "((month \<times> string) \<times> real) list \<Rightarrow> (month \<times> (string \<times> real option) list) list" where
  "pivot report =
     (let index = sort (remdups (map (\<lambda>r. fst (fst r)) report));
          cols = sort (remdups (map (\<lambda>r. snd (fst r)) report))
      in map (\<lambda>m. (m, map (\<lambda>c. (c, map_of report (m, c))) cols)) index)"

definition fillna ::
  "real \<Rightarrow> (month \<times> (string \<times> real option) list) list \<Rightarrow> (month \<times> (string \<times> real) list) list" where
  "fillna v p =
     map (\<lambda>(m, row). (m, map (\<lambda>(c, x). (c, case x of None \<Rightarrow> v | Some y \<Rightarrow> y)) row)) p"

text \<open>
  \<^verbatim>\<open>monthly_pivot.get(label, 0)\<close>, read at one row: the cell of the column when the pivot
  has the column, the default otherwise. The difference of the two is a floating-point
  subtraction of columns, or of the number 0 and a column; when the pivot has neither
  column it is the difference 0 of the two defaults. \<^verbatim>\<open>monthly_pivot[label] = ...\<close>,
  written at one row: the cell replaces the one of an existing column of that label, and
  is appended as a new last column otherwise.
\<close>

definition get_column :: "string \<Rightarrow> real \<Rightarrow> (string \<times> real) list \<Rightarrow> real" where
  "get_column c dflt row = (case map_of row c of None \<Rightarrow> dflt | Some v \<Rightarrow> v)"

definition net_cell :: "arith \<Rightarrow> (string \<times> real) list \<Rightarrow> real" where
  "net_cell A row =
     (if map_of row label_income = None \<and> map_of row label_expense = None then 0
      else fl_sub A (get_column label_income 0 row) (get_column label_expense 0 row))"

fun set_column :: "string \<Rightarrow> real \<Rightarrow> (string \<times> real) list \<Rightarrow> (string \<times> real) list" where
  "set_column c v [] = [(c, v)]"
| "set_column c v ((c', x) # row) =
     (if c' = c then (c, v) # row else (c', x) # set_column c v row)"

definition monthly_pivot :: "arith \<Rightarrow> transaction list \<Rightarrow> (month \<times> (string \<times> real) list) list" where
  "monthly_pivot A df =
     map (\<lambda>(m, row). (m, set_column label_net_profit (net_cell A row) row))
       (fillna 0 (pivot (monthly_report A df)))"

text \<open>
  The page computes the report only when the frame is not empty, and first converts the
  date column with \<^verbatim>\<open>pd.to_datetime\<close>. The form stores every date as \<^verbatim>\<open>YYYY-MM-DD\<close>;
  an import can store other date texts, and whether the library accepts a column of
  such texts is the library's matter: \<open>parses df\<close> says that \<^verbatim>\<open>pd.to_datetime\<close>
  returns, with the dates \<open>t_date\<close>, for the date column of the frame. When it raises,
  so does the page.
\<close>

datatype report = no_data | raised | table "(month \<times> (string \<times> real) list) list"

definition main_monthly_report ::
  "arith \<Rightarrow> (transaction list \<Rightarrow> bool) \<Rightarrow> transaction list \<Rightarrow> report" where
  "main_monthly_report A parses df =
     (if df = [] then no_data
      else if parses df then table (monthly_pivot A df)
      else raised)"

text \<open>
  The specification's wording: the sum of the amounts of one type within one month
  (the library's sum of a group; 0 when the month has no amount of the type), and the
  net of a month.
\<close>

definition month_amounts :: "string \<Rightarrow> month \<Rightarrow> transaction list \<Rightarrow> real list" where
  "month_amounts label m df =
     map t_amount (filter (\<lambda>t. month_of (t_date t) = m \<and> t_type t = label) df)"

definition month_total :: "arith \<Rightarrow> string \<Rightarrow> month \<Rightarrow> transaction list \<Rightarrow> real" where
  "month_total A label m df =
     (if month_amounts label m df = [] then 0 else groupby_sum A (month_amounts label m df))"

definition month_net :: "arith \<Rightarrow> month \<Rightarrow> transaction list \<Rightarrow> real" where
  "month_net A m df =
     (if label_income \<notin> t_type ` set df \<and> label_expense \<notin> t_type ` set df then 0
      else rnd A (month_total A label_income m df - month_total A label_expense m df))"



section \<open>Properties of the ledger store and of the handlers\<close>

lemma order_by_date_desc_total: "\<exists>df. order_by_date_desc selected df"
proof -
  let ?df = "rev (sort_key t_date selected)"
  have "sorted (map t_date (sort_key t_date selected))"
    by (rule sorted_sort_key)
  then have "sorted_wrt (\<lambda>a b. t_date a \<le> t_date b) (sort_key t_date selected)"
    by (simp add: sorted_map)
  then have "sorted_wrt (\<lambda>a b. t_date a \<ge> t_date b) ?df"
    by (simp add: sorted_wrt_rev)
  moreover have "mset ?df = mset selected"
    by simp
  ultimately show ?thesis
    unfolding order_by_date_desc_def by blast
qed


text \<open>
  Claim C10. The transaction query restricts by date only when both a start date and an
  end date are supplied: with only a start date, only an end date, or neither, the
  query is the unbounded query, whose results are the arrangements of the entire
  transaction table with dates descending; and the query has a result.
\<close>

theorem get_transactions_partial_range:
  "(get_transactions L (Some s) None df \<longleftrightarrow> get_transactions L None None df) \<and>
   (get_transactions L None (Some e) df \<longleftrightarrow> get_transactions L None None df) \<and>
   (get_transactions L None None df \<longleftrightarrow>
      mset df = mset (transactions L) \<and> sorted_wrt (\<lambda>a b. t_date a \<ge> t_date b) df) \<and>
   (\<exists>df'. get_transactions L None None df')"
proof -
  have q: "build_query (Some s) None = build_query None None"
          "build_query None (Some e) = build_query None None"
    by (simp_all add: build_query_def)
  have all: "filter (where_clause (build_query None None)) (transactions L) = transactions L"
    by (simp add: build_query_def)
  have "\<exists>df'. get_transactions L None None df'"
    unfolding get_transactions_def read_sql_query_def by (rule order_by_date_desc_total)
  then show ?thesis
    unfolding get_transactions_def read_sql_query_def q all order_by_date_desc_def by simp
qed

theorem get_transactions_partial_range_witness:
  "get_transactions
     \<lparr>transactions =
        [\<lparr>t_id = 1, t_date = (2024, 1, 5), t_type = label_income, t_category = ''consulting'',
          t_project = None, t_description = None, t_amount = 100, t_created_at = 0\<rparr>,
         \<lparr>t_id = 2, t_date = (2024, 3, 9), t_type = label_expense, t_category = ''office'',
          t_project = None, t_description = None, t_amount = 40, t_created_at = 0\<rparr>],
      projects = []\<rparr>
     (Some (2024, 2, 1)) None
     [\<lparr>t_id = 2, t_date = (2024, 3, 9), t_type = label_expense, t_category = ''office'',
       t_project = None, t_description = None, t_amount = 40, t_created_at = 0\<rparr>,
      \<lparr>t_id = 1, t_date = (2024, 1, 5), t_type = label_income, t_category = ''consulting'',
       t_project = None, t_description = None, t_amount = 100, t_created_at = 0\<rparr>]"
  using get_transactions_partial_range
    [of "\<lparr>transactions =
        [\<lparr>t_id = 1, t_date = (2024, 1, 5), t_type = label_income, t_category = ''consulting'',
          t_project = None, t_description = None, t_amount = 100, t_created_at = 0\<rparr>,
         \<lparr>t_id = 2, t_date = (2024, 3, 9), t_type = label_expense, t_category = ''office'',
          t_project = None, t_description = None, t_amount = 40, t_created_at = 0\<rparr>],
      projects = []\<rparr>" "(2024, 2, 1)"
     "[\<lparr>t_id = 2, t_date = (2024, 3, 9), t_type = label_expense, t_category = ''office'',
       t_project = None, t_description = None, t_amount = 40, t_created_at = 0\<rparr>,
      \<lparr>t_id = 1, t_date = (2024, 1, 5), t_type = label_income, t_category = ''consulting'',
       t_project = None, t_description = None, t_amount = 100, t_created_at = 0\<rparr>]"]
  by (simp add: add_mset_commute)


text \<open>
  Claim C6. A transaction entered in the form is accepted and written to the ledger if
  and only if its amount is strictly greater than zero; with amount 0 (and with any
  amount not above 0) an error is shown and the ledger is left as it was.
\<close>

theorem main_save_transaction_positive_amount:
  "(fst (main_save_transaction L now trans_date trans_type category proj description amount)
      = success_transaction_added \<longleftrightarrow> amount > 0) \<and>
   (amount > 0 \<longrightarrow>
      transactions (snd (main_save_transaction L now trans_date trans_type category proj description amount))
        = transactions L @
            [\<lparr>t_id = next_id (map t_id (transactions L)), t_date = trans_date, t_type = trans_type,
              t_category = category, t_project = proj, t_description = Some description,
              t_amount = amount, t_created_at = now\<rparr>]) \<and>
   (\<not> amount > 0 \<longrightarrow>
      main_save_transaction L now trans_date trans_type category proj description amount
        = (error_enter_amount, L)) \<and>
   main_save_transaction L now trans_date trans_type category proj description 0
        = (error_enter_amount, L)"
  by (simp add: main_save_transaction_def add_transaction_def)

theorem main_save_transaction_positive_amount_witness:
  "main_save_transaction \<lparr>transactions = [], projects = []\<rparr> 7 (2024, 3, 1) label_income
      ''consulting'' None ''kickoff'' 0
     = (error_enter_amount, \<lparr>transactions = [], projects = []\<rparr>) \<and>
   transactions (snd (main_save_transaction \<lparr>transactions = [], projects = []\<rparr> 7 (2024, 3, 1)
      label_income ''consulting'' None ''kickoff'' 1000))
     = [\<lparr>t_id = 1, t_date = (2024, 3, 1), t_type = label_income, t_category = ''consulting'',
         t_project = None, t_description = Some ''kickoff'', t_amount = 1000, t_created_at = 7\<rparr>]"
  using main_save_transaction_positive_amount
      [of "\<lparr>transactions = [], projects = []\<rparr>" 7 "(2024, 3, 1)" label_income
          "''consulting''" None "''kickoff''" 0]
    main_save_transaction_positive_amount
      [of "\<lparr>transactions = [], projects = []\<rparr>" 7 "(2024, 3, 1)" label_income
          "''consulting''" None "''kickoff''" 1000]
  by (simp add: next_id_def)

text \<open>
  Claim C7. A project whose name equals, byte for byte, the name of an existing project
  of any status is rejected (add_project returns False, the form shows the error for an
  existing name) and the ledger is unchanged; a project with a name not used before is
  appended as an active project (the form additionally requires the name to be
  non-empty).
\<close>

theorem add_project_unique_name:
  "(name \<in> p_name ` set (projects L) \<longrightarrow>
      add_project L now name client budget = (False, L) \<and>
      (name \<noteq> [] \<longrightarrow>
         main_save_project L now name proj_client proj_budget = (error_project_exists, L))) \<and>
   (name \<notin> p_name ` set (projects L) \<longrightarrow>
      fst (add_project L now name client budget) = True \<and>
      projects (snd (add_project L now name client budget)) =
        projects L @
          [\<lparr>p_id = next_id (map p_id (projects L)), p_name = name, p_client = client,
            p_budget = budget, p_status = Some ''active'', p_created_at = now\<rparr>] \<and>
      transactions (snd (add_project L now name client budget)) = transactions L \<and>
      (name \<noteq> [] \<longrightarrow>
         fst (main_save_project L now name proj_client proj_budget) = success_project_added \<and>
         map p_name (projects (snd (main_save_project L now name proj_client proj_budget))) =
           map p_name (projects L) @ [name]))"
  by (simp add: add_project_def main_save_project_def)

theorem add_project_unique_name_witness:
  "add_project
     \<lparr>transactions = [],
      projects = [\<lparr>p_id = 1, p_name = ''Alpha'', p_client = None, p_budget = None,
                   p_status = Some ''archived'', p_created_at = 0\<rparr>]\<rparr>
     9 ''Alpha'' (Some ''ACME'') (Some 5000)
   = (False,
      \<lparr>transactions = [],
       projects = [\<lparr>p_id = 1, p_name = ''Alpha'', p_client = None, p_budget = None,
                    p_status = Some ''archived'', p_created_at = 0\<rparr>]\<rparr>) \<and>
   map p_name (projects (snd (add_project
     \<lparr>transactions = [],
      projects = [\<lparr>p_id = 1, p_name = ''Alpha'', p_client = None, p_budget = None,
                   p_status = Some ''archived'', p_created_at = 0\<rparr>]\<rparr>
     9 ''alpha'' (Some ''ACME'') (Some 5000)))) = [''Alpha'', ''alpha'']"
  using add_project_unique_name
      [of "''Alpha''"
          "\<lparr>transactions = [],
            projects = [\<lparr>p_id = 1, p_name = ''Alpha'', p_client = None, p_budget = None,
                         p_status = Some ''archived'', p_created_at = 0\<rparr>]\<rparr>"
          9 "Some ''ACME''" "Some 5000" "''ACME''" 5000]
    add_project_unique_name
      [of "''alpha''"
          "\<lparr>transactions = [],
            projects = [\<lparr>p_id = 1, p_name = ''Alpha'', p_client = None, p_budget = None,
                         p_status = Some ''archived'', p_created_at = 0\<rparr>]\<rparr>"
          9 "Some ''ACME''" "Some 5000" "''ACME''" 5000]
  by simp


text \<open>
  Claim C9, as stated: whenever the filtered window holds a transaction, the exported
  workbook has two sheets. It does not hold: with one transaction in the window and no
  active project, the workbook has the sheet of the transactions only.
\<close>

theorem main_export_one_sheet_counterexample:
  "get_transactions
     \<lparr>transactions =
        [\<lparr>t_id = 1, t_date = (2024, 3, 1), t_type = label_income, t_category = ''consulting'',
          t_project = None, t_description = None, t_amount = 100, t_created_at = 0\<rparr>],
      projects = []\<rparr>
     (Some (2024, 1, 1)) (Some (2024, 12, 31))
     [\<lparr>t_id = 1, t_date = (2024, 3, 1), t_type = label_income, t_category = ''consulting'',
       t_project = None, t_description = None, t_amount = 100, t_created_at = 0\<rparr>] \<and>
   main_export
     \<lparr>transactions =
        [\<lparr>t_id = 1, t_date = (2024, 3, 1), t_type = label_income, t_category = ''consulting'',
          t_project = None, t_description = None, t_amount = 100, t_created_at = 0\<rparr>],
      projects = []\<rparr>
     [\<lparr>t_id = 1, t_date = (2024, 3, 1), t_type = label_income, t_category = ''consulting'',
       t_project = None, t_description = None, t_amount = 100, t_created_at = 0\<rparr>]
   = Some [(sheet_transactions,
            transaction_rows
              [\<lparr>t_id = 1, t_date = (2024, 3, 1), t_type = label_income, t_category = ''consulting'',
                t_project = None, t_description = None, t_amount = 100, t_created_at = 0\<rparr>])]"
  by (simp add: get_transactions_def read_sql_query_def build_query_def order_by_date_desc_def
      main_export_def get_projects_def)


text \<open>
  Claim C9, amended. For the frame df returned by get_transactions: when df is not empty
  the workbook holds the sheet of the transactions (the selected rows with all their
  fields, dates descending), followed by the sheet of the active projects exactly when
  there is an active project; when df is empty no workbook is produced.
\<close>

theorem main_export_sheets:
  assumes "get_transactions L start_date end_date df"
  shows "main_export L df =
           (if df = [] then None
            else if get_projects L = []
              then Some [(sheet_transactions, transaction_rows df)]
              else Some [(sheet_transactions, transaction_rows df),
                         (sheet_projects, project_rows (get_projects L))]) \<and>
         mset df = mset (filter (where_clause (build_query start_date end_date)) (transactions L)) \<and>
         sorted_wrt (\<lambda>a b. t_date a \<ge> t_date b) df \<and>
         get_projects L = filter (\<lambda>p. p_status p = Some ''active'') (projects L) \<and>
         sheet_transactions \<noteq> sheet_projects"
proof -
  have "mset df = mset (filter (where_clause (build_query start_date end_date)) (transactions L))"
    and "sorted_wrt (\<lambda>a b. t_date a \<ge> t_date b) df"
    using assms by (simp_all add: get_transactions_def read_sql_query_def order_by_date_desc_def)
  moreover have "sheet_transactions \<noteq> sheet_projects"
    by (simp add: sheet_transactions_def sheet_projects_def)
  ultimately show ?thesis
    by (simp add: main_export_def Let_def get_projects_def)
qed

theorem main_export_sheets_witness:
  "main_export
     \<lparr>transactions =
        [\<lparr>t_id = 1, t_date = (2024, 3, 1), t_type = label_income, t_category = ''consulting'',
          t_project = Some ''Alpha'', t_description = None, t_amount = 100, t_created_at = 0\<rparr>],
      projects =
        [\<lparr>p_id = 1, p_name = ''Alpha'', p_client = None, p_budget = None,
          p_status = Some ''active'', p_created_at = 0\<rparr>,
         \<lparr>p_id = 2, p_name = ''Beta'', p_client = None, p_budget = None,
          p_status = Some ''archived'', p_created_at = 0\<rparr>]\<rparr>
     [\<lparr>t_id = 1, t_date = (2024, 3, 1), t_type = label_income, t_category = ''consulting'',
       t_project = Some ''Alpha'', t_description = None, t_amount = 100, t_created_at = 0\<rparr>]
   = Some [(sheet_transactions,
            transaction_rows
              [\<lparr>t_id = 1, t_date = (2024, 3, 1), t_type = label_income, t_category = ''consulting'',
                t_project = Some ''Alpha'', t_description = None, t_amount = 100, t_created_at = 0\<rparr>]),
           (sheet_projects,
            project_rows
              [\<lparr>p_id = 1, p_name = ''Alpha'', p_client = None, p_budget = None,
                p_status = Some ''active'', p_created_at = 0\<rparr>])]"
proof -
  let ?t = "\<lparr>t_id = 1, t_date = (2024, 3, 1), t_type = label_income, t_category = ''consulting'',
       t_project = Some ''Alpha'', t_description = None, t_amount = 100, t_created_at = 0\<rparr>"
  let ?L = "\<lparr>transactions = [?t],
      projects =
        [\<lparr>p_id = 1, p_name = ''Alpha'', p_client = None, p_budget = None,
          p_status = Some ''active'', p_created_at = 0\<rparr>,
         \<lparr>p_id = 2, p_name = ''Beta'', p_client = None, p_budget = None,
          p_status = Some ''archived'', p_created_at = 0\<rparr>]\<rparr>"
  have h: "get_transactions ?L None None [?t]"
    by (simp add: get_transactions_def read_sql_query_def build_query_def order_by_date_desc_def)
  show ?thesis
    using main_export_sheets [OF h] by (simp add: get_projects_def)
qed

lemma insert_row_missing_required:
  "missing_required cols \<Longrightarrow> insert_row cols now r tbl = Inl IntegrityError"
  by (auto simp: missing_required_def insert_row_def cell_def split: option.splits)

text \<open>
  Claim C4, as stated: every import batch that misses a required column signals an
  error. It does not hold for a batch without rows: no INSERT is run, so no constraint
  is broken, and the handler reports 0 imported rows.
\<close>

theorem main_import_empty_frame_counterexample:
  "missing_required [col_date, col_type, col_category, col_project, col_description] \<and>
   main_import
     \<lparr>columns = [col_date, col_type, col_category, col_project, col_description], rows = []\<rparr>
     3 \<lparr>transactions = [], projects = []\<rparr>
   = (success_imported 0, \<lparr>transactions = [], projects = []\<rparr>)"
  by (simp add: missing_required_def main_import_def to_sql_def)

text \<open>
  Claim C4, amended. For every import batch that misses a required column the ledger is
  unchanged after the import, and when the batch has at least one row the import shows
  the error of the failed INSERT (no row of the batch is appended); a batch without rows
  reports 0 imported rows.
\<close>

theorem main_import_missing_column:
  assumes "missing_required (columns import_df)"
  shows "snd (main_import import_df now L) = L \<and>
         (rows import_df \<noteq> [] \<longrightarrow>
            main_import import_df now L = (error_exception IntegrityError, L)) \<and>
         (rows import_df = [] \<longrightarrow> main_import import_df now L = (success_imported 0, L))"
proof (cases "rows import_df")
  case Nil
  then show ?thesis
    by (simp add: main_import_def to_sql_def)
next
  case (Cons r rs)
  have "executemany (columns import_df) now (r # rs) (transactions L) = Inl IntegrityError"
    by (simp add: insert_row_missing_required [OF assms])
  with Cons show ?thesis
    by (simp add: main_import_def to_sql_def)
qed

theorem main_import_missing_column_witness:
  "main_import
     \<lparr>columns = [col_date, col_type, col_category, col_project, col_description],
      rows = [\<lparr>r_date = Some (2024, 3, 1), r_type = Some label_income,
               r_category = Some ''consulting'', r_project = None, r_description = None,
               r_amount = None\<rparr>]\<rparr>
     3
     \<lparr>transactions =
        [\<lparr>t_id = 1, t_date = (2024, 1, 5), t_type = label_income, t_category = ''consulting'',
          t_project = None, t_description = None, t_amount = 100, t_created_at = 0\<rparr>],
      projects = []\<rparr>
   = (error_exception IntegrityError,
      \<lparr>transactions =
        [\<lparr>t_id = 1, t_date = (2024, 1, 5), t_type = label_income, t_category = ''consulting'',
          t_project = None, t_description = None, t_amount = 100, t_created_at = 0\<rparr>],
      projects = []\<rparr>)"
proof -
  have h: "missing_required (columns
     \<lparr>columns = [col_date, col_type, col_category, col_project, col_description],
      rows = [\<lparr>r_date = Some (2024, 3, 1), r_type = Some label_income,
               r_category = Some ''consulting'', r_project = None, r_description = None,
               r_amount = None\<rparr>]\<rparr>)"
    by (simp add: missing_required_def)
  show ?thesis
    using main_import_missing_column [OF h, of 3] by simp
qed

section \<open>Properties of calculate_metrics\<close>

lemma normalise_numeral [simp]:
  "normalise (numeral k) x e =
     (if 2 \<le> x then normalise (pred_numeral k) (x / 2) (e + 1)
      else if x < 1 then normalise (pred_numeral k) (x * 2) (e - 1)
      else e)"
  by (simp add: numeral_eq_Suc)

lemmas binary64_simps =
  column_sum_def binary64_def numpy_sum_def block_sum_def fadd_def kahan_sum_def kahan_step_def round64_def pow2_def round_half_even_def Let_def fl_sub_def fl_mul_def fl_div_def

lemma column_sum_exact: "column_sum exact xs = sum_list xs"
  by (simp add: column_sum_def exact_def)

lemma sum_list_amounts: "sum_list (amounts label df) = total_of label df"
  by (simp add: amounts_def total_of_def sum_list_map_filter')



text \<open>
  Claim C1, as stated: the tuple holds the sums of the amounts, their difference and the
  quotient times 100. Read as numbers, this does not hold: with an income of 3 and an
  expense of 1 the margin returned is the double 66.66666666666666 (the quotient 2 / 3
  is rounded, and so is its product with 100), not 200 / 3.
\<close>

theorem calculate_metrics_rounding_counterexample:
  "calculate_metrics binary64
     [\<lparr>t_id = 1, t_date = (2024, 3, 1), t_type = label_income, t_category = ''consulting'',
       t_project = None, t_description = None, t_amount = 3, t_created_at = 0\<rparr>,
      \<lparr>t_id = 2, t_date = (2024, 3, 2), t_type = label_expense, t_category = ''office'',
       t_project = None, t_description = None, t_amount = 1, t_created_at = 0\<rparr>]
   = (3, 1, 2, 4691249611844266 / 70368744177664) \<and>
   (3 - 1) / 3 * 100 \<noteq> (4691249611844266 / 70368744177664 :: real)"
  by (simp add: calculate_metrics_def amounts_def binary64_simps label_income_def label_expense_def)

text \<open>
  Claim C1, amended. For every finite sequence of transactions, calculate_metrics
  returns (total income, total expense, net profit, profit margin in percent) computed
  in floating-point arithmetic: the totals are the library's sums of the amounts of the
  records of type income and of type expense, the net profit is their difference
  rounded, the margin is the net profit divided by the total income, rounded, times
  100, rounded, when the total income is positive, and 0 otherwise; the empty sequence
  yields (0, 0, 0, 0). Where nothing is rounded (exact arithmetic) the tuple is the one
  of the exact sums, difference and quotient.
\<close>

theorem calculate_metrics_spec:
  "calculate_metrics A df =
     (if df = [] then (0, 0, 0, 0)
      else
        (column_sum A (amounts label_income df),
         column_sum A (amounts label_expense df),
         rnd A (column_sum A (amounts label_income df) - column_sum A (amounts label_expense df)),
         (if column_sum A (amounts label_income df) > 0
          then rnd A (rnd A (rnd A (column_sum A (amounts label_income df) -
                                      column_sum A (amounts label_expense df))
                             / column_sum A (amounts label_income df)) * 100)
          else 0)))
   \<and> amounts label df = [t_amount t. t \<leftarrow> df, t_type t = label]
   \<and> calculate_metrics A [] = (0, 0, 0, 0)
   \<and> calculate_metrics exact df =
       (total_of label_income df,
        total_of label_expense df,
        total_of label_income df - total_of label_expense df,
        (if total_of label_income df > 0
         then (total_of label_income df - total_of label_expense df) / total_of label_income df * 100
         else 0))"
proof (intro conjI)
  show "calculate_metrics A df =
     (if df = [] then (0, 0, 0, 0)
      else
        (column_sum A (amounts label_income df),
         column_sum A (amounts label_expense df),
         rnd A (column_sum A (amounts label_income df) - column_sum A (amounts label_expense df)),
         (if column_sum A (amounts label_income df) > 0
          then rnd A (rnd A (rnd A (column_sum A (amounts label_income df) -
                                      column_sum A (amounts label_expense df))
                             / column_sum A (amounts label_income df)) * 100)
          else 0)))"
    by (simp add: calculate_metrics_def Let_def fl_sub_def fl_mul_def fl_div_def)
  show "amounts label df = [t_amount t. t \<leftarrow> df, t_type t = label]"
    unfolding amounts_def by (induction df) simp_all
  show "calculate_metrics A [] = (0, 0, 0, 0)"
    by (simp add: calculate_metrics_def)
  show "calculate_metrics exact df =
       (total_of label_income df,
        total_of label_expense df,
        total_of label_income df - total_of label_expense df,
        (if total_of label_income df > 0
         then (total_of label_income df - total_of label_expense df) / total_of label_income df * 100
         else 0))"
  proof (cases "df = []")
    case True
    then show ?thesis
      by (simp add: calculate_metrics_def total_of_def)
  next
    case False
    then show ?thesis
      by (simp add: calculate_metrics_def Let_def fl_sub_def fl_mul_def fl_div_def
          column_sum_exact sum_list_amounts) (simp add: exact_def)
  qed
qed

theorem calculate_metrics_spec_witness:
  "calculate_metrics binary64
     [\<lparr>t_id = 1, t_date = (2024, 3, 1), t_type = label_income, t_category = ''consulting'',
       t_project = Some ''A'', t_description = None, t_amount = 200, t_created_at = 0\<rparr>,
      \<lparr>t_id = 2, t_date = (2024, 3, 31), t_type = label_expense, t_category = ''office'',
       t_project = None, t_description = None, t_amount = 50, t_created_at = 0\<rparr>]
   = (200, 50, 150, 75)"
  using calculate_metrics_spec
    [of binary64
        "[\<lparr>t_id = 1, t_date = (2024, 3, 1), t_type = label_income, t_category = ''consulting'',
           t_project = Some ''A'', t_description = None, t_amount = 200, t_created_at = 0\<rparr>,
          \<lparr>t_id = 2, t_date = (2024, 3, 31), t_type = label_expense, t_category = ''office'',
           t_project = None, t_description = None, t_amount = 50, t_created_at = 0\<rparr>]"]
  by (simp add: amounts_def binary64_simps label_income_def label_expense_def)




section \<open>Properties of project_profitability\<close>

lemma map_filter_notna:
  "List.map_filter t_project (filter (\<lambda>t. t_project t \<noteq> None) df) = List.map_filter t_project df"
  by (induction df) (auto simp: List.map_filter_simps split: option.splits)

lemma set_map_filter_project:
  "set (List.map_filter t_project df) = {p. \<exists>t \<in> set df. t_project t = Some p}"
  by (induction df) (auto simp: List.map_filter_simps split: option.splits)

lemma filter_project_notna:
  "filter (\<lambda>t. t_project t = Some k) (filter (\<lambda>t. t_project t \<noteq> None) df) =
   filter (\<lambda>t. t_project t = Some k) df"
  by (induction df) auto

lemma project_data_eq:
  "project_data A df =
     map (\<lambda>k. (k, net_contribution A k df)) (sort (remdups (List.map_filter t_project df)))"
proof -
  have "groupby_project (filter (\<lambda>t. t_project t \<noteq> None) df) =
        map (\<lambda>k. (k, filter (\<lambda>t. t_project t = Some k) df))
          (sort (remdups (List.map_filter t_project df)))"
    unfolding groupby_project_def map_filter_notna filter_project_notna by (rule refl)
  then show ?thesis
    by (simp add: project_data_def group_net_def net_contribution_def fl_sub_def comp_def)
qed

lemma map_fst_project_data:
  "map fst (project_data A df) = sort (remdups (List.map_filter t_project df))"
  by (simp add: project_data_eq comp_def)

lemma sort_values_desc_total: "\<exists>out. sort_values_desc frame out"
proof -
  let ?out = "rev (sort_key snd frame)"
  have "sorted (map snd (sort_key snd frame))"
    by (rule sorted_sort_key)
  then have "sorted_wrt (\<lambda>a b. snd a \<le> snd b) (sort_key snd frame)"
    by (simp add: sorted_map)
  then have "sorted_wrt (\<lambda>a b. snd a \<ge> snd b) ?out"
    by (simp add: sorted_wrt_rev)
  moreover have "mset ?out = mset frame"
    by simp
  ultimately show ?thesis
    unfolding sort_values_desc_def by blast
qed

lemma project_profitability_total: "\<exists>out. project_profitability A df out"
proof (cases "df = []")
  case True
  then show ?thesis
    by (simp add: project_profitability_def)
next
  case False
  with sort_values_desc_total [of "project_data A df"] show ?thesis
    by (simp add: project_profitability_def)
qed

lemma project_profitability_rows:
  assumes "project_profitability A df out"
  shows "mset out = mset (project_data A df)"
proof (cases "df = []")
  case True
  with assms show ?thesis
    by (simp add: project_profitability_def project_data_eq List.map_filter_simps)
next
  case False
  with assms show ?thesis
    by (simp add: project_profitability_def sort_values_desc_def)
qed

lemma project_profitability_sorted:
  assumes "project_profitability A df out"
  shows "sorted_wrt (\<lambda>a b. snd a \<ge> snd b) out"
  using assms by (cases "df = []") (simp_all add: project_profitability_def sort_values_desc_def)

lemma project_data_twenty:
  "project_data binary64
     [\<lparr>t_id = 1, t_date = (2024, 3, 1), t_type = label_income, t_category = ''consulting'',
       t_project = Some ''a'', t_description = None, t_amount = 100, t_created_at = 0\<rparr>,
      \<lparr>t_id = 2, t_date = (2024, 3, 1), t_type = label_income, t_category = ''consulting'',
       t_project = Some ''b'', t_description = None, t_amount = 100, t_created_at = 0\<rparr>,
      \<lparr>t_id = 3, t_date = (2024, 3, 1), t_type = label_income, t_category = ''consulting'',
       t_project = Some ''c'', t_description = None, t_amount = 100, t_created_at = 0\<rparr>,
      \<lparr>t_id = 4, t_date = (2024, 3, 1), t_type = label_income, t_category = ''consulting'',
       t_project = Some ''d'', t_description = None, t_amount = 100, t_created_at = 0\<rparr>,
      \<lparr>t_id = 5, t_date = (2024, 3, 1), t_type = label_income, t_category = ''consulting'',
       t_project = Some ''e'', t_description = None, t_amount = 100, t_created_at = 0\<rparr>,
      \<lparr>t_id = 6, t_date = (2024, 3, 1), t_type = label_income, t_category = ''consulting'',
       t_project = Some ''f'', t_description = None, t_amount = 100, t_created_at = 0\<rparr>,
      \<lparr>t_id = 7, t_date = (2024, 3, 1), t_type = label_income, t_category = ''consulting'',
       t_project = Some ''g'', t_description = None, t_amount = 100, t_created_at = 0\<rparr>,
      \<lparr>t_id = 8, t_date = (2024, 3, 1), t_type = label_income, t_category = ''consulting'',
       t_project = Some ''h'', t_description = None, t_amount = 100, t_created_at = 0\<rparr>,
      \<lparr>t_id = 9, t_date = (2024, 3, 1), t_type = label_income, t_category = ''consulting'',
       t_project = Some ''i'', t_description = None, t_amount = 100, t_created_at = 0\<rparr>,
      \<lparr>t_id = 10, t_date = (2024, 3, 1), t_type = label_income, t_category = ''consulting'',
       t_project = Some ''j'', t_description = None, t_amount = 100, t_created_at = 0\<rparr>,
      \<lparr>t_id = 11, t_date = (2024, 3, 1), t_type = label_income, t_category = ''consulting'',
       t_project = Some ''k'', t_description = None, t_amount = 100, t_created_at = 0\<rparr>,
      \<lparr>t_id = 12, t_date = (2024, 3, 1), t_type = label_income, t_category = ''consulting'',
       t_project = Some ''l'', t_description = None, t_amount = 100, t_created_at = 0\<rparr>,
      \<lparr>t_id = 13, t_date = (2024, 3, 1), t_type = label_income, t_category = ''consulting'',
       t_project = Some ''m'', t_description = None, t_amount = 100, t_created_at = 0\<rparr>,
      \<lparr>t_id = 14, t_date = (2024, 3, 1), t_type = label_income, t_category = ''consulting'',
       t_project = Some ''n'', t_description = None, t_amount = 100, t_created_at = 0\<rparr>,
      \<lparr>t_id = 15, t_date = (2024, 3, 1), t_type = label_income, t_category = ''consulting'',
       t_project = Some ''o'', t_description = None, t_amount = 100, t_created_at = 0\<rparr>,
      \<lparr>t_id = 16, t_date = (2024, 3, 1), t_type = label_income, t_category = ''consulting'',
       t_project = Some ''p'', t_description = None, t_amount = 100, t_created_at = 0\<rparr>,
      \<lparr>t_id = 17, t_date = (2024, 3, 1), t_type = label_income, t_category = ''consulting'',
       t_project = Some ''q'', t_description = None, t_amount = 100, t_created_at = 0\<rparr>,
      \<lparr>t_id = 18, t_date = (2024, 3, 1), t_type = label_income, t_category = ''consulting'',
       t_project = Some ''r'', t_description = None, t_amount = 100, t_created_at = 0\<rparr>,
      \<lparr>t_id = 19, t_date = (2024, 3, 1), t_type = label_income, t_category = ''consulting'',
       t_project = Some ''s'', t_description = None, t_amount = 100, t_created_at = 0\<rparr>,
      \<lparr>t_id = 20, t_date = (2024, 3, 1), t_type = label_income, t_category = ''consulting'',
       t_project = Some ''t'', t_description = None, t_amount = 100, t_created_at = 0\<rparr>]
   = [(''a'', 100), (''b'', 100), (''c'', 100), (''d'', 100), (''e'', 100), (''f'', 100),
      (''g'', 100), (''h'', 100), (''i'', 100), (''j'', 100), (''k'', 100), (''l'', 100),
      (''m'', 100), (''n'', 100), (''o'', 100), (''p'', 100), (''q'', 100), (''r'', 100),
      (''s'', 100), (''t'', 100)]"
  by (simp add: project_data_def groupby_project_def group_net_def amounts_def
      List.map_filter_simps binary64_simps label_income_def label_expense_def)

lemma project_profitability_twenty:
  "project_profitability binary64
     [\<lparr>t_id = 1, t_date = (2024, 3, 1), t_type = label_income, t_category = ''consulting'',
       t_project = Some ''a'', t_description = None, t_amount = 100, t_created_at = 0\<rparr>,
      \<lparr>t_id = 2, t_date = (2024, 3, 1), t_type = label_income, t_category = ''consulting'',
       t_project = Some ''b'', t_description = None, t_amount = 100, t_created_at = 0\<rparr>,
      \<lparr>t_id = 3, t_date = (2024, 3, 1), t_type = label_income, t_category = ''consulting'',
       t_project = Some ''c'', t_description = None, t_amount = 100, t_created_at = 0\<rparr>,
      \<lparr>t_id = 4, t_date = (2024, 3, 1), t_type = label_income, t_category = ''consulting'',
       t_project = Some ''d'', t_description = None, t_amount = 100, t_created_at = 0\<rparr>,
      \<lparr>t_id = 5, t_date = (2024, 3, 1), t_type = label_income, t_category = ''consulting'',
       t_project = Some ''e'', t_description = None, t_amount = 100, t_created_at = 0\<rparr>,
      \<lparr>t_id = 6, t_date = (2024, 3, 1), t_type = label_income, t_category = ''consulting'',
       t_project = Some ''f'', t_description = None, t_amount = 100, t_created_at = 0\<rparr>,
      \<lparr>t_id = 7, t_date = (2024, 3, 1), t_type = label_income, t_category = ''consulting'',
       t_project = Some ''g'', t_description = None, t_amount = 100, t_created_at = 0\<rparr>,
      \<lparr>t_id = 8, t_date = (2024, 3, 1), t_type = label_income, t_category = ''consulting'',
       t_project = Some ''h'', t_description = None, t_amount = 100, t_created_at = 0\<rparr>,
      \<lparr>t_id = 9, t_date = (2024, 3, 1), t_type = label_income, t_category = ''consulting'',
       t_project = Some ''i'', t_description = None, t_amount = 100, t_created_at = 0\<rparr>,
      \<lparr>t_id = 10, t_date = (2024, 3, 1), t_type = label_income, t_category = ''consulting'',
       t_project = Some ''j'', t_description = None, t_amount = 100, t_created_at = 0\<rparr>,
      \<lparr>t_id = 11, t_date = (2024, 3, 1), t_type = label_income, t_category = ''consulting'',
       t_project = Some ''k'', t_description = None, t_amount = 100, t_created_at = 0\<rparr>,
      \<lparr>t_id = 12, t_date = (2024, 3, 1), t_type = label_income, t_category = ''consulting'',
       t_project = Some ''l'', t_description = None, t_amount = 100, t_created_at = 0\<rparr>,
      \<lparr>t_id = 13, t_date = (2024, 3, 1), t_type = label_income, t_category = ''consulting'',
       t_project = Some ''m'', t_description = None, t_amount = 100, t_created_at = 0\<rparr>,
      \<lparr>t_id = 14, t_date = (2024, 3, 1), t_type = label_income, t_category = ''consulting'',
       t_project = Some ''n'', t_description = None, t_amount = 100, t_created_at = 0\<rparr>,
      \<lparr>t_id = 15, t_date = (2024, 3, 1), t_type = label_income, t_category = ''consulting'',
       t_project = Some ''o'', t_description = None, t_amount = 100, t_created_at = 0\<rparr>,
      \<lparr>t_id = 16, t_date = (2024, 3, 1), t_type = label_income, t_category = ''consulting'',
       t_project = Some ''p'', t_description = None, t_amount = 100, t_created_at = 0\<rparr>,
      \<lparr>t_id = 17, t_date = (2024, 3, 1), t_type = label_income, t_category = ''consulting'',
       t_project = Some ''q'', t_description = None, t_amount = 100, t_created_at = 0\<rparr>,
      \<lparr>t_id = 18, t_date = (2024, 3, 1), t_type = label_income, t_category = ''consulting'',
       t_project = Some ''r'', t_description = None, t_amount = 100, t_created_at = 0\<rparr>,
      \<lparr>t_id = 19, t_date = (2024, 3, 1), t_type = label_income, t_category = ''consulting'',
       t_project = Some ''s'', t_description = None, t_amount = 100, t_created_at = 0\<rparr>,
      \<lparr>t_id = 20, t_date = (2024, 3, 1), t_type = label_income, t_category = ''consulting'',
       t_project = Some ''t'', t_description = None, t_amount = 100, t_created_at = 0\<rparr>]
     [(''a'', 100), (''b'', 100), (''s'', 100), (''r'', 100), (''q'', 100), (''p'', 100), (''o'', 100), (''n'', 100), (''m'', 100), (''l'', 100), (''k'', 100), (''j'', 100), (''i'', 100), (''h'', 100), (''g'', 100), (''f'', 100), (''e'', 100), (''d'', 100), (''c'', 100), (''t'', 100)]"
  unfolding project_profitability_def sort_values_desc_def project_data_twenty
  by (simp add: add_mset_commute)

text \<open>
  Claim C2, as stated. Three parts of it do not hold. The tie rule: with twenty projects
  of equal net contribution (more rows than the library's sort handles by insertion) the
  single-key, non-stable sort admits arrangements that are not in ascending order of the
  name. The restriction to non-empty project values: a transaction whose project is the
  empty string has a project value for \<^verbatim>\<open>notna()\<close> and gets its pair. The net
  contribution as the sum: the incomes 0.1 and 0.2 of one project give the double
  0.30000000000000004, not their sum.
\<close>

theorem project_profitability_counterexample:
  "\<not> (\<forall>out. project_profitability binary64
         [\<lparr>t_id = 1, t_date = (2024, 3, 1), t_type = label_income, t_category = ''consulting'',
       t_project = Some ''a'', t_description = None, t_amount = 100, t_created_at = 0\<rparr>,
      \<lparr>t_id = 2, t_date = (2024, 3, 1), t_type = label_income, t_category = ''consulting'',
       t_project = Some ''b'', t_description = None, t_amount = 100, t_created_at = 0\<rparr>,
      \<lparr>t_id = 3, t_date = (2024, 3, 1), t_type = label_income, t_category = ''consulting'',
       t_project = Some ''c'', t_description = None, t_amount = 100, t_created_at = 0\<rparr>,
      \<lparr>t_id = 4, t_date = (2024, 3, 1), t_type = label_income, t_category = ''consulting'',
       t_project = Some ''d'', t_description = None, t_amount = 100, t_created_at = 0\<rparr>,
      \<lparr>t_id = 5, t_date = (2024, 3, 1), t_type = label_income, t_category = ''consulting'',
       t_project = Some ''e'', t_description = None, t_amount = 100, t_created_at = 0\<rparr>,
      \<lparr>t_id = 6, t_date = (2024, 3, 1), t_type = label_income, t_category = ''consulting'',
       t_project = Some ''f'', t_description = None, t_amount = 100, t_created_at = 0\<rparr>,
      \<lparr>t_id = 7, t_date = (2024, 3, 1), t_type = label_income, t_category = ''consulting'',
       t_project = Some ''g'', t_description = None, t_amount = 100, t_created_at = 0\<rparr>,
      \<lparr>t_id = 8, t_date = (2024, 3, 1), t_type = label_income, t_category = ''consulting'',
       t_project = Some ''h'', t_description = None, t_amount = 100, t_created_at = 0\<rparr>,
      \<lparr>t_id = 9, t_date = (2024, 3, 1), t_type = label_income, t_category = ''consulting'',
       t_project = Some ''i'', t_description = None, t_amount = 100, t_created_at = 0\<rparr>,
      \<lparr>t_id = 10, t_date = (2024, 3, 1), t_type = label_income, t_category = ''consulting'',
       t_project = Some ''j'', t_description = None, t_amount = 100, t_created_at = 0\<rparr>,
      \<lparr>t_id = 11, t_date = (2024, 3, 1), t_type = label_income, t_category = ''consulting'',
       t_project = Some ''k'', t_description = None, t_amount = 100, t_created_at = 0\<rparr>,
      \<lparr>t_id = 12, t_date = (2024, 3, 1), t_type = label_income, t_category = ''consulting'',
       t_project = Some ''l'', t_description = None, t_amount = 100, t_created_at = 0\<rparr>,
      \<lparr>t_id = 13, t_date = (2024, 3, 1), t_type = label_income, t_category = ''consulting'',
       t_project = Some ''m'', t_description = None, t_amount = 100, t_created_at = 0\<rparr>,
      \<lparr>t_id = 14, t_date = (2024, 3, 1), t_type = label_income, t_category = ''consulting'',
       t_project = Some ''n'', t_description = None, t_amount = 100, t_created_at = 0\<rparr>,
      \<lparr>t_id = 15, t_date = (2024, 3, 1), t_type = label_income, t_category = ''consulting'',
       t_project = Some ''o'', t_description = None, t_amount = 100, t_created_at = 0\<rparr>,
      \<lparr>t_id = 16, t_date = (2024, 3, 1), t_type = label_income, t_category = ''consulting'',
       t_project = Some ''p'', t_description = None, t_amount = 100, t_created_at = 0\<rparr>,
      \<lparr>t_id = 17, t_date = (2024, 3, 1), t_type = label_income, t_category = ''consulting'',
       t_project = Some ''q'', t_description = None, t_amount = 100, t_created_at = 0\<rparr>,
      \<lparr>t_id = 18, t_date = (2024, 3, 1), t_type = label_income, t_category = ''consulting'',
       t_project = Some ''r'', t_description = None, t_amount = 100, t_created_at = 0\<rparr>,
      \<lparr>t_id = 19, t_date = (2024, 3, 1), t_type = label_income, t_category = ''consulting'',
       t_project = Some ''s'', t_description = None, t_amount = 100, t_created_at = 0\<rparr>,
      \<lparr>t_id = 20, t_date = (2024, 3, 1), t_type = label_income, t_category = ''consulting'',
       t_project = Some ''t'', t_description = None, t_amount = 100, t_created_at = 0\<rparr>]
         out \<longrightarrow> net_desc_name_asc out) \<and>
   project_profitability binary64
     [\<lparr>t_id = 1, t_date = (2024, 3, 1), t_type = label_income, t_category = ''consulting'',
       t_project = Some [], t_description = None, t_amount = 100, t_created_at = 0\<rparr>]
     [([], 100)] \<and>
   project_profitability binary64
     [\<lparr>t_id = 1, t_date = (2024, 3, 1), t_type = label_income, t_category = ''consulting'',
       t_project = Some ''X'', t_description = None,
       t_amount = 3602879701896397 / 36028797018963968, t_created_at = 0\<rparr>,
      \<lparr>t_id = 2, t_date = (2024, 3, 2), t_type = label_income, t_category = ''consulting'',
       t_project = Some ''X'', t_description = None,
       t_amount = 3602879701896397 / 18014398509481984, t_created_at = 0\<rparr>]
     [(''X'', 5404319552844596 / 18014398509481984)] \<and>
   (3602879701896397 / 36028797018963968 + 3602879701896397 / 18014398509481984 :: real)
     \<noteq> 5404319552844596 / 18014398509481984"
proof (intro conjI)
  have "\<not> net_desc_name_asc
     [(''a'', 100), (''b'', 100), (''s'', 100), (''r'', 100), (''q'', 100), (''p'', 100), (''o'', 100), (''n'', 100), (''m'', 100), (''l'', 100), (''k'', 100), (''j'', 100), (''i'', 100), (''h'', 100), (''g'', 100), (''f'', 100), (''e'', 100), (''d'', 100), (''c'', 100), (''t'', 100)]"
    by (simp add: net_desc_name_asc_def)
  with project_profitability_twenty
  show "\<not> (\<forall>out. project_profitability binary64
         [\<lparr>t_id = 1, t_date = (2024, 3, 1), t_type = label_income, t_category = ''consulting'',
       t_project = Some ''a'', t_description = None, t_amount = 100, t_created_at = 0\<rparr>,
      \<lparr>t_id = 2, t_date = (2024, 3, 1), t_type = label_income, t_category = ''consulting'',
       t_project = Some ''b'', t_description = None, t_amount = 100, t_created_at = 0\<rparr>,
      \<lparr>t_id = 3, t_date = (2024, 3, 1), t_type = label_income, t_category = ''consulting'',
       t_project = Some ''c'', t_description = None, t_amount = 100, t_created_at = 0\<rparr>,
      \<lparr>t_id = 4, t_date = (2024, 3, 1), t_type = label_income, t_category = ''consulting'',
       t_project = Some ''d'', t_description = None, t_amount = 100, t_created_at = 0\<rparr>,
      \<lparr>t_id = 5, t_date = (2024, 3, 1), t_type = label_income, t_category = ''consulting'',
       t_project = Some ''e'', t_description = None, t_amount = 100, t_created_at = 0\<rparr>,
      \<lparr>t_id = 6, t_date = (2024, 3, 1), t_type = label_income, t_category = ''consulting'',
       t_project = Some ''f'', t_description = None, t_amount = 100, t_created_at = 0\<rparr>,
      \<lparr>t_id = 7, t_date = (2024, 3, 1), t_type = label_income, t_category = ''consulting'',
       t_project = Some ''g'', t_description = None, t_amount = 100, t_created_at = 0\<rparr>,
      \<lparr>t_id = 8, t_date = (2024, 3, 1), t_type = label_income, t_category = ''consulting'',
       t_project = Some ''h'', t_description = None, t_amount = 100, t_created_at = 0\<rparr>,
      \<lparr>t_id = 9, t_date = (2024, 3, 1), t_type = label_income, t_category = ''consulting'',
       t_project = Some ''i'', t_description = None, t_amount = 100, t_created_at = 0\<rparr>,
      \<lparr>t_id = 10, t_date = (2024, 3, 1), t_type = label_income, t_category = ''consulting'',
       t_project = Some ''j'', t_description = None, t_amount = 100, t_created_at = 0\<rparr>,
      \<lparr>t_id = 11, t_date = (2024, 3, 1), t_type = label_income, t_category = ''consulting'',
       t_project = Some ''k'', t_description = None, t_amount = 100, t_created_at = 0\<rparr>,
      \<lparr>t_id = 12, t_date = (2024, 3, 1), t_type = label_income, t_category = ''consulting'',
       t_project = Some ''l'', t_description = None, t_amount = 100, t_created_at = 0\<rparr>,
      \<lparr>t_id = 13, t_date = (2024, 3, 1), t_type = label_income, t_category = ''consulting'',
       t_project = Some ''m'', t_description = None, t_amount = 100, t_created_at = 0\<rparr>,
      \<lparr>t_id = 14, t_date = (2024, 3, 1), t_type = label_income, t_category = ''consulting'',
       t_project = Some ''n'', t_description = None, t_amount = 100, t_created_at = 0\<rparr>,
      \<lparr>t_id = 15, t_date = (2024, 3, 1), t_type = label_income, t_category = ''consulting'',
       t_project = Some ''o'', t_description = None, t_amount = 100, t_created_at = 0\<rparr>,
      \<lparr>t_id = 16, t_date = (2024, 3, 1), t_type = label_income, t_category = ''consulting'',
       t_project = Some ''p'', t_description = None, t_amount = 100, t_created_at = 0\<rparr>,
      \<lparr>t_id = 17, t_date = (2024, 3, 1), t_type = label_income, t_category = ''consulting'',
       t_project = Some ''q'', t_description = None, t_amount = 100, t_created_at = 0\<rparr>,
      \<lparr>t_id = 18, t_date = (2024, 3, 1), t_type = label_income, t_category = ''consulting'',
       t_project = Some ''r'', t_description = None, t_amount = 100, t_created_at = 0\<rparr>,
      \<lparr>t_id = 19, t_date = (2024, 3, 1), t_type = label_income, t_category = ''consulting'',
       t_project = Some ''s'', t_description = None, t_amount = 100, t_created_at = 0\<rparr>,
      \<lparr>t_id = 20, t_date = (2024, 3, 1), t_type = label_income, t_category = ''consulting'',
       t_project = Some ''t'', t_description = None, t_amount = 100, t_created_at = 0\<rparr>]
         out \<longrightarrow> net_desc_name_asc out)"
    by blast
qed (simp_all add: project_profitability_def sort_values_desc_def project_data_def
      groupby_project_def group_net_def amounts_def List.map_filter_simps binary64_simps
      label_income_def label_expense_def)

text \<open>
  Claim C2, amended. For every finite sequence of transactions the aggregation has an
  output, and every output contains exactly one pair (project, net contribution) for
  each distinct project value occurring in the input, the empty string included, where
  the net contribution is the sum of the income amounts minus the sum of the expense
  amounts of that project's transactions, computed in floating-point arithmetic (the
  library's sums, the difference rounded); transactions whose project value is missing
  contribute no pair; and the output is sorted by net contribution descending. The
  order among projects of equal net contribution is not fixed.
\<close>

theorem project_profitability_spec:
  "(\<exists>out. project_profitability A df out) \<and>
   (\<forall>out. project_profitability A df out \<longrightarrow>
      distinct (map fst out) \<and>
      set (map fst out) = {p. \<exists>t \<in> set df. t_project t = Some p} \<and>
      (\<forall>(p, v) \<in> set out. v = net_contribution A p df) \<and>
      sorted_wrt (\<lambda>a b. snd a \<ge> snd b) out)"
proof (intro conjI allI impI)
  show "\<exists>out. project_profitability A df out"
    by (rule project_profitability_total)
next
  fix out
  assume pp: "project_profitability A df out"
  have rows: "mset out = mset (project_data A df)"
    by (rule project_profitability_rows [OF pp])
  then have names: "mset (map fst out) = mset (map fst (project_data A df))"
    by (metis mset_map)
  have "distinct (map fst (project_data A df))"
    by (simp add: map_fst_project_data)
  with names show "distinct (map fst out)"
    by (metis mset_eq_imp_distinct_iff)
  have "set (map fst out) = set (map fst (project_data A df))"
    using names by (rule mset_eq_setD)
  then show "set (map fst out) = {p. \<exists>t \<in> set df. t_project t = Some p}"
    by (simp add: map_fst_project_data set_map_filter_project)
  have "set out = set (project_data A df)"
    using rows by (rule mset_eq_setD)
  then show "\<forall>(p, v) \<in> set out. v = net_contribution A p df"
    by (auto simp: project_data_eq)
  show "sorted_wrt (\<lambda>a b. snd a \<ge> snd b) out"
    by (rule project_profitability_sorted [OF pp])
qed

theorem project_profitability_spec_witness:
  "project_profitability binary64
     [\<lparr>t_id = 1, t_date = (2024, 3, 1), t_type = label_expense, t_category = ''office'',
       t_project = Some ''B'', t_description = None, t_amount = 50, t_created_at = 0\<rparr>,
      \<lparr>t_id = 2, t_date = (2024, 3, 2), t_type = label_income, t_category = ''consulting'',
       t_project = Some ''A'', t_description = None, t_amount = 100, t_created_at = 0\<rparr>,
      \<lparr>t_id = 3, t_date = (2024, 3, 3), t_type = label_income, t_category = ''consulting'',
       t_project = None, t_description = None, t_amount = 7, t_created_at = 0\<rparr>]
     [(''A'', 100), (''B'', - 50)] \<and>
   set (map fst [(''A'', 100::real), (''B'', - 50)]) =
     {p. \<exists>t \<in> set
       [\<lparr>t_id = 1, t_date = (2024, 3, 1), t_type = label_expense, t_category = ''office'',
       t_project = Some ''B'', t_description = None, t_amount = 50, t_created_at = 0\<rparr>,
      \<lparr>t_id = 2, t_date = (2024, 3, 2), t_type = label_income, t_category = ''consulting'',
       t_project = Some ''A'', t_description = None, t_amount = 100, t_created_at = 0\<rparr>,
      \<lparr>t_id = 3, t_date = (2024, 3, 3), t_type = label_income, t_category = ''consulting'',
       t_project = None, t_description = None, t_amount = 7, t_created_at = 0\<rparr>].
        t_project t = Some p}"
proof -
  let ?df = "[\<lparr>t_id = 1, t_date = (2024, 3, 1), t_type = label_expense, t_category = ''office'',
       t_project = Some ''B'', t_description = None, t_amount = 50, t_created_at = 0\<rparr>,
      \<lparr>t_id = 2, t_date = (2024, 3, 2), t_type = label_income, t_category = ''consulting'',
       t_project = Some ''A'', t_description = None, t_amount = 100, t_created_at = 0\<rparr>,
      \<lparr>t_id = 3, t_date = (2024, 3, 3), t_type = label_income, t_category = ''consulting'',
       t_project = None, t_description = None, t_amount = 7, t_created_at = 0\<rparr>]"
  have h: "project_profitability binary64 ?df [(''A'', 100), (''B'', - 50)]"
    by (simp add: project_profitability_def sort_values_desc_def project_data_def
        groupby_project_def group_net_def amounts_def List.map_filter_simps binary64_simps
        label_income_def label_expense_def)
  from project_profitability_spec [of binary64 ?df] h
  have "set (map fst [(''A'', 100::real), (''B'', - 50)]) = {p. \<exists>t \<in> set ?df. t_project t = Some p}"
    by blast
  with h show ?thesis by blast
qed

section \<open>Properties of the monthly report\<close>

lemma map_of_graph:
  "map_of (map (\<lambda>k. (k, f k)) ks) k = (if k \<in> set ks then Some (f k) else None)"
  by (induction ks) auto

lemma month_amounts_key:
  "map t_amount (filter (\<lambda>t. (month_of (t_date t), t_type t) = (m, c)) df) = month_amounts c m df"
  by (simp add: month_amounts_def)

lemma month_amounts_empty:
  "month_amounts c m df = [] \<longleftrightarrow> (m, c) \<notin> (\<lambda>t. (month_of (t_date t), t_type t)) ` set df"
  by (auto simp: month_amounts_def filter_empty_conv)

lemma report_cell:
  "(case map_of (monthly_report A df) (m, c) of None \<Rightarrow> 0 | Some y \<Rightarrow> y) = month_total A c m df"
proof (cases "(m, c) \<in> (\<lambda>t. (month_of (t_date t), t_type t)) ` set df")
  case True
  then have "map_of (monthly_report A df) (m, c) =
      Some (groupby_sum A
        (map t_amount (filter (\<lambda>t. (month_of (t_date t), t_type t) = (m, c)) df)))"
    unfolding monthly_report_def map_of_graph by simp
  then have "map_of (monthly_report A df) (m, c) = Some (groupby_sum A (month_amounts c m df))"
    by (simp only: month_amounts_key)
  moreover have "month_amounts c m df \<noteq> []"
    using True by (simp add: month_amounts_empty)
  ultimately show ?thesis
    by (simp add: month_total_def)
next
  case False
  then have "map_of (monthly_report A df) (m, c) = None"
    unfolding monthly_report_def map_of_graph by simp
  moreover have "month_amounts c m df = []"
    using False by (simp add: month_amounts_empty)
  ultimately show ?thesis
    by (simp add: month_total_def)
qed

lemma sort_remdups_cong:
  "set xs = set ys \<Longrightarrow> sort (remdups xs) = sort (remdups (ys :: 'a :: linorder list))"
  by (rule sorted_distinct_set_unique) simp_all

lemma report_index:
  "sort (remdups (map (\<lambda>r. fst (fst r)) (monthly_report A df))) =
   sort (remdups (map (\<lambda>t. month_of (t_date t)) df))"
  by (rule sort_remdups_cong) (force simp: monthly_report_def)

lemma report_columns:
  "sort (remdups (map (\<lambda>r. snd (fst r)) (monthly_report A df))) =
   sort (remdups (map t_type df))"
  by (rule sort_remdups_cong) (force simp: monthly_report_def)

lemma filled_pivot:
  "fillna 0 (pivot (monthly_report A df)) =
     map (\<lambda>m. (m, map (\<lambda>c. (c, month_total A c m df)) (sort (remdups (map t_type df)))))
       (sort (remdups (map (\<lambda>t. month_of (t_date t)) df)))"
  unfolding pivot_def Let_def report_index report_columns fillna_def
  by (simp add: comp_def report_cell)

lemma map_of_set_column: "map_of (set_column c v row) = (map_of row)(c \<mapsto> v)"
  by (induction row) (auto simp: fun_eq_iff)

lemma month_total_absent: "c \<notin> t_type ` set df \<Longrightarrow> month_total A c m df = 0"
proof -
  assume "c \<notin> t_type ` set df"
  then have "(m, c) \<notin> (\<lambda>t. (month_of (t_date t), t_type t)) ` set df"
    by auto
  then show ?thesis
    by (simp add: month_total_def month_amounts_empty)
qed

lemma get_column_total:
  "get_column c 0 (map (\<lambda>c. (c, month_total A c m df)) (sort (remdups (map t_type df)))) =
   month_total A c m df"
  by (simp add: get_column_def map_of_graph month_total_absent)

lemma net_cell_total:
  "net_cell A (map (\<lambda>c. (c, month_total A c m df)) (sort (remdups (map t_type df)))) =
   month_net A m df"
  unfolding net_cell_def get_column_total
  by (simp add: map_of_graph month_net_def fl_sub_def)

lemma monthly_pivot_eq:
  "monthly_pivot A df =
     map (\<lambda>m. (m, set_column label_net_profit (month_net A m df)
                   (map (\<lambda>c. (c, month_total A c m df)) (sort (remdups (map t_type df))))))
       (sort (remdups (map (\<lambda>t. month_of (t_date t)) df)))"
  unfolding monthly_pivot_def filled_pivot
  by (simp add: comp_def net_cell_total)

lemma map_fst_monthly_pivot:
  "map fst (monthly_pivot A df) = sort (remdups (map (\<lambda>t. month_of (t_date t)) df))"
  by (simp add: monthly_pivot_eq comp_def)

lemmas monthly_pivot_simps =
  monthly_pivot_def fillna_def pivot_def monthly_report_def month_of_def get_column_def
  net_cell_def label_income_def label_expense_def label_net_profit_def

text \<open>
  Claim C3, as stated. Three parts of it do not hold. A type without any transaction in
  the whole input has no column, so a single expense gives a row with the expense and
  the net and no income value (not 0). A type whose text is the label of the net column
  has its column overwritten by the net: with 70 of that type, an income of 10 and an
  expense of 4 in one month, the row reports 6 under that label. And a sum is a
  floating-point sum: the incomes 0.1 and 0.2 are reported as 0.30000000000000004.
\<close>

theorem monthly_pivot_counterexample:
  "monthly_pivot binary64
     [\<lparr>t_id = 1, t_date = (2024, 3, 15), t_type = label_expense, t_category = ''office'',
       t_project = None, t_description = None, t_amount = 50, t_created_at = 0\<rparr>]
   = [((2024, 3), [(label_expense, 50), (label_net_profit, - 50)])] \<and>
   map_of [(label_expense, 50::real), (label_net_profit, - 50)] label_income = None \<and>
   monthly_pivot binary64
     [\<lparr>t_id = 1, t_date = (2024, 3, 1), t_type = label_net_profit, t_category = ''other'',
       t_project = None, t_description = None, t_amount = 70, t_created_at = 0\<rparr>,
      \<lparr>t_id = 2, t_date = (2024, 3, 2), t_type = label_income, t_category = ''consulting'',
       t_project = None, t_description = None, t_amount = 10, t_created_at = 0\<rparr>,
      \<lparr>t_id = 3, t_date = (2024, 3, 3), t_type = label_expense, t_category = ''office'',
       t_project = None, t_description = None, t_amount = 4, t_created_at = 0\<rparr>]
   = [((2024, 3), [(label_income, 10), (label_net_profit, 6), (label_expense, 4)])] \<and>
   monthly_pivot binary64
     [\<lparr>t_id = 1, t_date = (2024, 3, 1), t_type = label_income, t_category = ''consulting'',
       t_project = None, t_description = None,
       t_amount = 3602879701896397 / 36028797018963968, t_created_at = 0\<rparr>,
      \<lparr>t_id = 2, t_date = (2024, 3, 2), t_type = label_income, t_category = ''consulting'',
       t_project = None, t_description = None,
       t_amount = 3602879701896397 / 18014398509481984, t_created_at = 0\<rparr>]
   = [((2024, 3), [(label_income, 5404319552844596 / 18014398509481984),
                   (label_net_profit, 5404319552844596 / 18014398509481984)])] \<and>
   (3602879701896397 / 36028797018963968 + 3602879701896397 / 18014398509481984 :: real)
     \<noteq> 5404319552844596 / 18014398509481984"
  by (simp add: monthly_pivot_simps binary64_simps)

text \<open>
  Claim C3, amended. For every finite sequence of transactions whose date column the
  library parses, the report has one row for each distinct year-month of the input's
  dates (the day is discarded), the rows are in ascending order of the month, and each
  row reports, for every type that occurs anywhere in the input and is not spelled like
  the label of the net column, the floating-point sum of the amounts of that type in
  the month (0 when the type has no activity in that month), and under the label of the
  net column the income value minus the expense value of the row, rounded, where a type
  that occurs nowhere in the input has no column and counts as 0. For the empty
  sequence no report is computed.
\<close>

theorem monthly_pivot_spec:
  "main_monthly_report A parses [] = no_data \<and>
   (df \<noteq> [] \<and> parses df \<longrightarrow> main_monthly_report A parses df = table (monthly_pivot A df)) \<and>
   sorted (map fst (monthly_pivot A df)) \<and>
   distinct (map fst (monthly_pivot A df)) \<and>
   set (map fst (monthly_pivot A df)) = (\<lambda>t. month_of (t_date t)) ` set df \<and>
   (\<forall>(m, row) \<in> set (monthly_pivot A df).
      map_of row label_net_profit = Some (month_net A m df) \<and>
      (\<forall>label. label \<noteq> label_net_profit \<longrightarrow>
         map_of row label =
           (if label \<in> t_type ` set df then Some (month_total A label m df) else None))) \<and>
   month_of (y, mo, d) = (y, mo)"
proof (intro conjI)
  show "main_monthly_report A parses [] = no_data"
    by (simp add: main_monthly_report_def)
  show "df \<noteq> [] \<and> parses df \<longrightarrow> main_monthly_report A parses df = table (monthly_pivot A df)"
    by (simp add: main_monthly_report_def)
  show "sorted (map fst (monthly_pivot A df))"
    by (simp add: map_fst_monthly_pivot)
  show "distinct (map fst (monthly_pivot A df))"
    by (simp add: map_fst_monthly_pivot)
  show "set (map fst (monthly_pivot A df)) = (\<lambda>t. month_of (t_date t)) ` set df"
    by (simp add: map_fst_monthly_pivot)
  show "month_of (y, mo, d) = (y, mo)"
    by (simp add: month_of_def)
  show "\<forall>(m, row) \<in> set (monthly_pivot A df).
      map_of row label_net_profit = Some (month_net A m df) \<and>
      (\<forall>label. label \<noteq> label_net_profit \<longrightarrow>
         map_of row label =
           (if label \<in> t_type ` set df then Some (month_total A label m df) else None))"
    by (auto simp: monthly_pivot_eq map_of_set_column map_of_graph)
qed

theorem monthly_pivot_spec_witness:
  "main_monthly_report binary64 (\<lambda>df. True)
     [\<lparr>t_id = 1, t_date = (2024, 3, 1), t_type = label_income, t_category = ''consulting'',
       t_project = None, t_description = None, t_amount = 100, t_created_at = 0\<rparr>,
      \<lparr>t_id = 2, t_date = (2024, 3, 31), t_type = label_expense, t_category = ''office'',
       t_project = None, t_description = None, t_amount = 40, t_created_at = 0\<rparr>,
      \<lparr>t_id = 3, t_date = (2024, 2, 10), t_type = label_income, t_category = ''consulting'',
       t_project = None, t_description = None, t_amount = 5, t_created_at = 0\<rparr>]
   = table
      [((2024, 2), [(label_income, 5), (label_expense, 0), (label_net_profit, 5)]),
       ((2024, 3), [(label_income, 100), (label_expense, 40), (label_net_profit, 60)])]"
  using monthly_pivot_spec
    [of binary64 "\<lambda>df. True"
        "[\<lparr>t_id = 1, t_date = (2024, 3, 1), t_type = label_income, t_category = ''consulting'',
       t_project = None, t_description = None, t_amount = 100, t_created_at = 0\<rparr>,
      \<lparr>t_id = 2, t_date = (2024, 3, 31), t_type = label_expense, t_category = ''office'',
       t_project = None, t_description = None, t_amount = 40, t_created_at = 0\<rparr>,
      \<lparr>t_id = 3, t_date = (2024, 2, 10), t_type = label_income, t_category = ''consulting'',
       t_project = None, t_description = None, t_amount = 5, t_created_at = 0\<rparr>]" 2024 3 31]
  by (simp add: main_monthly_report_def monthly_pivot_simps binary64_simps)

section \<open>Properties of the import of well-formed batches\<close>







end
